theory Spec2Isabelle
  imports Main
begin

section \<open>Limes project quota: the activation wait\<close>

subsection \<open>Data\<close>

text \<open>
  A duration is Go's \<^verbatim>\<open>time.Duration\<close>: a signed count of nanoseconds. The code only
  compares it with zero and hands it on, so it is an \<^typ>\<open>int\<close>.
\<close>

type_synonym duration = int

definition Second :: duration where
  "Second = 1000000000"

text \<open>
  The run-time panics of Go that this code can raise: reading through a nil pointer, and
  a type assertion without the comma-ok form on a value of another type.
\<close>

datatype panic = NilDereference | InterfaceConversion

text \<open>
  Of a project report the code reads the \<^verbatim>\<open>Services\<close> map and, of each service in it,
  the length of its \<^verbatim>\<open>Resources\<close> map. \<^verbatim>\<open>Services\<close> is kept as the list of its entries
  in the order the \<^verbatim>\<open>range\<close> statement visits them (Go leaves that order open).
\<close>

record project_resource_report =
  Quota :: "nat option"
  Unit :: string

record project_service_report =
  Resources :: "(string \<times> project_resource_report) list"

record project_report =
  UUID :: string
  Services :: "(string \<times> project_service_report) list"

text \<open>
  A quota request maps a service type to the resource quotas asked for it (resource name
  to value and unit). The code only asks whether a service type is a key of it. It
  receives the request by pointer and dereferences it without a nil check; the model
  takes the map the pointer leads to.
\<close>

type_synonym service_quota_request = "string \<rightharpoonup> (nat \<times> string)"

type_synonym quota_request = "string \<rightharpoonup> service_quota_request"

text \<open>
  \<^verbatim>\<open>projects.Get(...).Extract()\<close> belongs to the client library and returns a pointer to a
  report and an error. With an error the code does not look at the pointer; without one
  the pointer is the report, or nil when the answer's body holds no project. Of the
  error the code looks at the dynamic type (is it \<^verbatim>\<open>gophercloud.ErrDefault404\<close>?) and
  prints the text with \<^verbatim>\<open>%v\<close>.
\<close>

datatype get_error =
    ErrDefault404 string
  | ErrOther string

fun Error :: "get_error \<Rightarrow> string" where
  "Error (ErrDefault404 s) = s"
| "Error (ErrOther s) = s"

fun is_ErrDefault404 :: "get_error \<Rightarrow> bool" where
  "is_ErrDefault404 (ErrDefault404 s) = True"
| "is_ErrDefault404 (ErrOther s) = False"

text \<open>
  The errors this code returns: \<^verbatim>\<open>fmt.Errorf\<close> with operands, as the text it renders;
  \<^verbatim>\<open>fmt.Errorf(msg)\<close> with the message as the format and no operand, kept as that
  format; and the two errors of the waiting primitive, a timeout (with the states it
  waited for) and a result that stayed nil.
\<close>

datatype error =
    ErrorString string
  | ErrorFormat string
  | TimeoutError "string list"
  | NotFoundError

text \<open>
  The remote service, as far as the client sees it: its answer to the n-th request for a
  domain and a project (an error, or no error and a report or nil), and the number of
  requests served so far. Each \<^verbatim>\<open>Get\<close> is one request.
\<close>

type_synonym get_answer = "get_error + project_report option"

record remote =
  answers :: "nat \<Rightarrow> string \<Rightarrow> string \<Rightarrow> get_answer"
  served :: nat

definition projects_Get :: "string \<Rightarrow> string \<Rightarrow> remote \<Rightarrow> get_answer \<times> remote" where
  "projects_Get domainID projectID client =
     (answers client (served client) domainID projectID,
      client\<lparr>served := Suc (served client)\<rparr>)"

subsection \<open>The refresh function\<close>

text \<open>
  A refresh returns Go's triple \<^verbatim>\<open>(interface{}, string, error)\<close>: the result (nil or
  the report), the state message, and the error (nil or an error); or it panics.
\<close>

type_synonym refresh_result = "project_report option \<times> string \<times> error option"

type_synonym state_refresh_func = "remote \<Rightarrow> (panic + refresh_result) \<times> remote"

definition unable_to_retrieve :: "string \<Rightarrow> string \<Rightarrow> get_error \<Rightarrow> string" where
  "unable_to_retrieve domainID projectID err =
     ''Unable to retrieve '' @ domainID @ ''/'' @ projectID @
     '' ccloud_quota_project_v1: '' @ Error err"

text \<open>
  The loop over \<^verbatim>\<open>quota.Services\<close>: the first entry whose key is requested, whose
  resource map is empty, and with a positive timeout, ends the refresh with a message.
  The map printed there is empty, and \<^verbatim>\<open>%v\<close> prints an empty map as \<^verbatim>\<open>map[]\<close>.
\<close>

fun empty_resources :: "quota_request \<Rightarrow> duration \<Rightarrow> (string \<times> project_service_report) list \<Rightarrow> string option" where
  "empty_resources services timeout [] = None"
| "empty_resources services timeout ((k, service) # rest) =
     (if services k \<noteq> None \<and> length (Resources service) = 0 \<and> timeout > 0
      then Some (''There are empty resources: '' @ ''map[]'')
      else empty_resources services timeout rest)"

text \<open>
  With no error and a nil report, \<^verbatim>\<open>quota.Services\<close> reads through the nil pointer: the
  code has no check for it, and the refresh panics.
\<close>

definition limesCCloudProjectQuotaV1GetQuota ::
    "string \<Rightarrow> string \<Rightarrow> quota_request \<Rightarrow> duration \<Rightarrow> state_refresh_func" where
  "limesCCloudProjectQuotaV1GetQuota domainID projectID services timeout client =
     (case projects_Get domainID projectID client of
        (Inl err, client') \<Rightarrow>
          (if is_ErrDefault404 err \<and> timeout > 0
           then (Inr (None, unable_to_retrieve domainID projectID err, None), client')
           else (Inr (None, '''', Some (ErrorString (unable_to_retrieve domainID projectID err))), client'))
      | (Inr None, client') \<Rightarrow> (Inl NilDereference, client')
      | (Inr (Some quota), client') \<Rightarrow>
          (case empty_resources services timeout (Services quota) of
             Some msg \<Rightarrow> (Inr (None, msg, None), client')
           | None \<Rightarrow> (Inr (Some quota, ''active'', None), client')))"

text \<open>
  The outcome of the refresh at the \<open>i\<close>-th request from now on: what a caller that has
  made \<open>i\<close> requests since gets from its next call.
\<close>

definition refresh_at ::
    "string \<Rightarrow> string \<Rightarrow> quota_request \<Rightarrow> duration \<Rightarrow> remote \<Rightarrow> nat \<Rightarrow> panic + refresh_result" where
  "refresh_at domainID projectID services timeout client i =
     fst (limesCCloudProjectQuotaV1GetQuota domainID projectID services timeout
            (client\<lparr>served := served client + i\<rparr>))"

subsection \<open>The wait\<close>

text \<open>
  The configuration handed to the SDK's waiting primitive, \<^verbatim>\<open>resource.StateChangeConf\<close>,
  with the fields the code sets, and \<^verbatim>\<open>Pending\<close>, which it leaves at Go's zero value like
  every other field.
\<close>

record state_change_conf =
  Pending :: "string list"
  Target :: "string list"
  Refresh :: state_refresh_func
  Timeout :: duration
  Delay :: duration
  MinTimeout :: duration
  NotFoundChecks :: int

text \<open>
  The primitive \<^verbatim>\<open>WaitForStateContext\<close> belongs to the SDK, not to this code, so the wait
  takes it as a parameter: from a configuration and the remote it gives the result and
  the error (or the panic of a refresh) and the remote after its requests, or nothing
  when it does not return.
\<close>

type_synonym wait_result = "(panic + project_report option \<times> error option) \<times> remote"

type_synonym wait_for_state = "state_change_conf \<Rightarrow> remote \<Rightarrow> wait_result option"

definition waitForAgent :: "string \<Rightarrow> string \<Rightarrow> quota_request \<Rightarrow> duration \<Rightarrow> state_change_conf" where
  "waitForAgent domainID projectID services timeout =
     \<lparr> Pending = [],
       Target = [''active''],
       Refresh = limesCCloudProjectQuotaV1GetQuota domainID projectID services timeout,
       Timeout = timeout,
       Delay = 1 * Second,
       MinTimeout = 1 * Second,
       NotFoundChecks = 1000 \<rparr>"

text \<open>
  The wait returns Go's \<^verbatim>\<open>error\<close> (nil is \<^term>\<open>None\<close>), or panics, and leaves the remote
  after its requests; the outer \<^term>\<open>None\<close> is a wait that does not return. In the branch
  of a positive timeout \<^verbatim>\<open>msg\<close> is never assigned and stays empty. The context argument
  is only handed on to the primitive and is part of that parameter.
\<close>

definition limesCCloudProjectQuotaV1WaitForProject ::
    "wait_for_state \<Rightarrow> string \<Rightarrow> string \<Rightarrow> quota_request \<Rightarrow> duration \<Rightarrow> remote
     \<Rightarrow> ((panic + error option) \<times> remote) option" where
  "limesCCloudProjectQuotaV1WaitForProject wait domainID projectID services timeout client =
     (case (if timeout > 0
            then (case wait (waitForAgent domainID projectID services timeout) client of
                    None \<Rightarrow> None
                  | Some (Inl pn, client') \<Rightarrow> Some (Inl pn, client')
                  | Some (Inr (res, err), client') \<Rightarrow> Some (Inr ('''', err), client'))
            else (case limesCCloudProjectQuotaV1GetQuota domainID projectID services timeout client of
                    (Inl pn, client') \<Rightarrow> Some (Inl pn, client')
                  | (Inr (res, msg, err), client') \<Rightarrow> Some (Inr (msg, err), client')))
      of None \<Rightarrow> None
       | Some (Inl pn, client') \<Rightarrow> Some (Inl pn, client')
       | Some (Inr (msg, err), client') \<Rightarrow>
           (if length msg > 0 \<and> msg \<noteq> ''active'' then Some (Inr (Some (ErrorFormat msg)), client')
            else if err \<noteq> None then Some (Inr err, client')
            else Some (Inr None, client')))"

text \<open>
  Modelled from the spec: the SDK's state-refresh polling primitive
  (\<^verbatim>\<open>StateChangeConf.WaitForStateContext\<close>) is not among the sources. The spec has it
  poll on a fixed delay, end with success at the target state, end with failure at an
  error of the refresh or when a pending state lasts past the timeout; the code's comment
  on \<^verbatim>\<open>NotFoundChecks\<close> adds that it gives up after that many checks with a nil result.
  Time is logical: the clock starts at \<^verbatim>\<open>Delay\<close> and advances by \<^verbatim>\<open>MinTimeout\<close>
  between two checks; a refresh itself takes no time, and the context is never
  cancelled. The loop keeps the clock's reading at every refresh it runs, in order. A
  panic of the refresh ends it. A loop that never ends is \<^term>\<open>None\<close>.
\<close>

partial_function (option) poll ::
    "state_change_conf \<Rightarrow> duration \<Rightarrow> nat \<Rightarrow> duration list \<Rightarrow> remote
     \<Rightarrow> ((panic + project_report option \<times> error option) \<times> duration list \<times> remote) option" where
  "poll conf elapsed notfoundTick checks client =
     (if Timeout conf \<le> elapsed
      then Some (Inr (None, Some (TimeoutError (Target conf))), checks, client)
      else (case Refresh conf client of
              (Inl pn, client') \<Rightarrow> Some (Inl pn, checks @ [elapsed], client')
            | (Inr (res, currentState, err), client') \<Rightarrow>
                (if err \<noteq> None then Some (Inr (res, err), checks @ [elapsed], client')
                 else (case res of
                         None \<Rightarrow>
                           (if NotFoundChecks conf < int (Suc notfoundTick)
                            then Some (Inr (None, Some NotFoundError), checks @ [elapsed], client')
                            else poll conf (elapsed + MinTimeout conf) (Suc notfoundTick)
                                   (checks @ [elapsed]) client')
                       | Some r \<Rightarrow>
                           (if currentState \<in> set (Target conf)
                            then Some (Inr (res, None), checks @ [elapsed], client')
                            else poll conf (elapsed + MinTimeout conf) 0
                                   (checks @ [elapsed]) client')))))"

text \<open>
  Modelled from the spec: the entry of the SDK's polling primitive, which is not among
  the sources. The first check comes after \<^verbatim>\<open>Delay\<close>, with no nil result counted yet.
\<close>

definition WaitForStateContext :: wait_for_state where
  "WaitForStateContext conf client =
     (case poll conf (Delay conf) 0 [] client of
        None \<Rightarrow> None
      | Some (outcome, checks, client') \<Rightarrow> Some (outcome, client'))"

text \<open>
  Modelled from the spec: the readings of the logical clock at which the polling
  primitive, which is not among the sources, runs the refresh.
\<close>

definition check_times :: "state_change_conf \<Rightarrow> remote \<Rightarrow> duration list option" where
  "check_times conf client =
     (case poll conf (Delay conf) 0 [] client of
        None \<Rightarrow> None
      | Some (outcome, checks, client') \<Rightarrow> Some checks)"

section \<open>Billing masterdata: expanding and flattening schema blocks\<close>

subsection \<open>Dynamic values\<close>

text \<open>
  A value of Go's \<^verbatim>\<open>any\<close> carries its dynamic type, and a type assertion succeeds only
  on that very type: a \<^verbatim>\<open>[]map[string]any\<close> is not a \<^verbatim>\<open>[]any\<close>. The values that
  reach these helpers are nil, booleans, strings, numbers, \<^verbatim>\<open>[]any\<close>,
  \<^verbatim>\<open>map[string]any\<close> and \<^verbatim>\<open>[]map[string]any\<close>.
\<close>

datatype any =
    ANil
  | ABool bool
  | AString string
  | AInt int
  | ASlice "any list"
  | AMap "string \<Rightarrow> any option"
  | AMapSlice "(string \<Rightarrow> any option) list"

text \<open>A failed type assertion without the comma-ok form panics.\<close>

fun assert_bool :: "any \<Rightarrow> panic + bool" where
  "assert_bool (ABool b) = Inr b"
| "assert_bool v = Inl InterfaceConversion"

fun assert_string :: "any \<Rightarrow> panic + string" where
  "assert_string (AString s) = Inr s"
| "assert_string v = Inl InterfaceConversion"

text \<open>
  The comma-ok form on a map lookup: a missing key yields the nil interface, on which
  the assertion fails like on any value that is not a boolean.
\<close>

fun bool_ok :: "any option \<Rightarrow> bool option" where
  "bool_ok (Some (ABool b)) = Some b"
| "bool_ok v = None"

subsection \<open>Cost object\<close>

record cost_object =
  Inherited :: bool
  Name :: string
  Type :: string

definition zero_cost_object :: cost_object where
  "zero_cost_object = \<lparr> Inherited = False, Name = '''', Type = '''' \<rparr>"

text \<open>The body run on the first element that is a map; it ends the loop.\<close>

definition expandCostObjectMap :: "(string \<Rightarrow> any option) \<Rightarrow> panic + cost_object" where
  "expandCostObjectMap v =
     (case (case v ''inherited'' of
              None \<Rightarrow> Inr zero_cost_object
            | Some i \<Rightarrow> (case assert_bool i of
                           Inl p \<Rightarrow> Inl p
                         | Inr b \<Rightarrow> Inr (zero_cost_object\<lparr>Inherited := b\<rparr>)))
      of Inl p \<Rightarrow> Inl p
       | Inr co \<Rightarrow>
           (if \<not> Inherited co
            then (case (case v ''name'' of
                          None \<Rightarrow> Inr co
                        | Some n \<Rightarrow> (case assert_string n of
                                       Inl p \<Rightarrow> Inl p
                                     | Inr s \<Rightarrow> Inr (co\<lparr>Name := s\<rparr>)))
                  of Inl p \<Rightarrow> Inl p
                   | Inr co' \<Rightarrow>
                       (case v ''type'' of
                          None \<Rightarrow> Inr co'
                        | Some t \<Rightarrow> (case assert_string t of
                                       Inl p \<Rightarrow> Inl p
                                     | Inr s \<Rightarrow> Inr (co'\<lparr>Type := s\<rparr>))))
            else Inr co))"

text \<open>The loop over the list: elements that are not maps are passed over.\<close>

fun expandCostObjectElements :: "any list \<Rightarrow> panic + cost_object" where
  "expandCostObjectElements [] = Inr zero_cost_object"
| "expandCostObjectElements (AMap v # rest) = expandCostObjectMap v"
| "expandCostObjectElements (x # rest) = expandCostObjectElements rest"

fun billingProjectExpandCostObject :: "any \<Rightarrow> panic + cost_object" where
  "billingProjectExpandCostObject (ASlice v) = expandCostObjectElements v"
| "billingProjectExpandCostObject raw = Inr zero_cost_object"

subsection \<open>External certification\<close>

record ext_certification =
  C5 :: bool
  ISO :: bool
  PCI :: bool
  SOC1 :: bool
  SOC2 :: bool
  SOX :: bool

definition zero_ext_certification :: ext_certification where
  "zero_ext_certification =
     \<lparr> C5 = False, ISO = False, PCI = False, SOC1 = False, SOC2 = False, SOX = False \<rparr>"

definition expandExtCertificationMap :: "(string \<Rightarrow> any option) \<Rightarrow> ext_certification" where
  "expandExtCertificationMap v =
     (let e = zero_ext_certification;
          e = (case bool_ok (v ''c5'') of Some b \<Rightarrow> e\<lparr>C5 := b\<rparr> | None \<Rightarrow> e);
          e = (case bool_ok (v ''iso'') of Some b \<Rightarrow> e\<lparr>ISO := b\<rparr> | None \<Rightarrow> e);
          e = (case bool_ok (v ''pci'') of Some b \<Rightarrow> e\<lparr>PCI := b\<rparr> | None \<Rightarrow> e);
          e = (case bool_ok (v ''soc1'') of Some b \<Rightarrow> e\<lparr>SOC1 := b\<rparr> | None \<Rightarrow> e);
          e = (case bool_ok (v ''soc2'') of Some b \<Rightarrow> e\<lparr>SOC2 := b\<rparr> | None \<Rightarrow> e);
          e = (case bool_ok (v ''SOX'') of Some b \<Rightarrow> e\<lparr>SOX := b\<rparr> | None \<Rightarrow> e)
      in e)"

text \<open>
  The loop returns at its first element: nil when that is not a map, the expanded value
  otherwise; an empty list, or a value that is not a \<^verbatim>\<open>[]any\<close>, gives nil.
\<close>

fun billingProjectExpandExtCertificationV1 :: "any \<Rightarrow> ext_certification option" where
  "billingProjectExpandExtCertificationV1 (ASlice []) = None"
| "billingProjectExpandExtCertificationV1 (ASlice (AMap v # rest)) = Some (expandExtCertificationMap v)"
| "billingProjectExpandExtCertificationV1 (ASlice (x # rest)) = None"
| "billingProjectExpandExtCertificationV1 raw = None"

text \<open>The result is a \<^verbatim>\<open>[]map[string]any\<close>; the nil slice is the empty list.\<close>

fun billingProjectFlattenExtCertificationV1 :: "ext_certification option \<Rightarrow> (string \<Rightarrow> any option) list" where
  "billingProjectFlattenExtCertificationV1 None = []"
| "billingProjectFlattenExtCertificationV1 (Some extCertification) =
     [[''c5'' \<mapsto> ABool (C5 extCertification),
       ''iso'' \<mapsto> ABool (ISO extCertification),
       ''pci'' \<mapsto> ABool (PCI extCertification),
       ''soc1'' \<mapsto> ABool (SOC1 extCertification),
       ''soc2'' \<mapsto> ABool (SOC2 extCertification),
       ''sox'' \<mapsto> ABool (SOX extCertification)]]"

section \<open>Properties of the refresh function\<close>

lemma Second_pos: "0 < Second"
  by (simp add: Second_def)

lemma empty_resources_None:
  "(empty_resources services timeout xs = None) =
     (timeout \<le> 0 \<or> (\<forall>(k, s) \<in> set xs. services k \<noteq> None \<longrightarrow> Resources s \<noteq> []))"
  by (induction services timeout xs rule: empty_resources.induct) auto

lemma empty_resources_Some:
  "empty_resources services timeout xs = Some m \<Longrightarrow> m = ''There are empty resources: map[]''"
  by (induction services timeout xs rule: empty_resources.induct) (auto split: if_splits)

lemma GetQuota_served:
  "snd (limesCCloudProjectQuotaV1GetQuota d p services timeout client) = client\<lparr>served := Suc (served client)\<rparr>"
  by (simp add: limesCCloudProjectQuotaV1GetQuota_def projects_Get_def split: sum.splits option.splits)

lemma GetQuota_report:
  "answers client (served client) d p = Inr (Some report) \<Longrightarrow>
   fst (limesCCloudProjectQuotaV1GetQuota d p services timeout client) =
     (case empty_resources services timeout (Services report) of
        Some msg \<Rightarrow> Inr (None, msg, None) | None \<Rightarrow> Inr (Some report, ''active'', None))"
  by (simp add: limesCCloudProjectQuotaV1GetQuota_def projects_Get_def split: option.splits)

lemma GetQuota_error:
  "answers client (served client) d p = Inl e \<Longrightarrow>
   fst (limesCCloudProjectQuotaV1GetQuota d p services timeout client) =
     (if is_ErrDefault404 e \<and> 0 < timeout then Inr (None, unable_to_retrieve d p e, None)
      else Inr (None, '''', Some (ErrorString (unable_to_retrieve d p e))))"
  by (simp add: limesCCloudProjectQuotaV1GetQuota_def projects_Get_def)

lemma GetQuota_nil:
  "answers client (served client) d p = Inr None \<Longrightarrow>
   fst (limesCCloudProjectQuotaV1GetQuota d p services timeout client) = Inl NilDereference"
  by (simp add: limesCCloudProjectQuotaV1GetQuota_def projects_Get_def)

lemma unable_to_retrieve_nonempty: "unable_to_retrieve d p e \<noteq> []"
  by (simp add: unable_to_retrieve_def)

lemma unable_to_retrieve_not_active: "unable_to_retrieve d p e \<noteq> ''active''"
  by (simp add: unable_to_retrieve_def)

text \<open>
  C1, as the code has it. For a report retrieved without error the refresh returns the
  report with the state \<^verbatim>\<open>active\<close> and no error exactly when the timeout is not positive
  or no service of the report that the request names has an empty resource list; and its
  state is \<^verbatim>\<open>active\<close> in exactly those cases. A service the request names and the report
  lacks does not hold the state back, and neither does anything when the timeout is zero.
\<close>

theorem GetQuota_active_iff:
  assumes "answers client (served client) d p = Inr (Some report)"
  shows "((fst (limesCCloudProjectQuotaV1GetQuota d p services timeout client) = Inr (Some report, ''active'', None))
            = (timeout \<le> 0 \<or> (\<forall>(k, s) \<in> set (Services report). services k \<noteq> None \<longrightarrow> Resources s \<noteq> [])))
       \<and> ((\<exists>res err. fst (limesCCloudProjectQuotaV1GetQuota d p services timeout client) = Inr (res, ''active'', err))
            = (timeout \<le> 0 \<or> (\<forall>(k, s) \<in> set (Services report). services k \<noteq> None \<longrightarrow> Resources s \<noteq> [])))"
proof -
  have "(fst (limesCCloudProjectQuotaV1GetQuota d p services timeout client) = Inr (Some report, ''active'', None))
      = (empty_resources services timeout (Services report) = None)"
    using assms by (simp add: GetQuota_report split: option.splits)
  moreover
  have "(\<exists>res err. fst (limesCCloudProjectQuotaV1GetQuota d p services timeout client) = Inr (res, ''active'', err))
      = (empty_resources services timeout (Services report) = None)"
    using assms by (auto simp: GetQuota_report split: option.splits dest: empty_resources_Some)
  ultimately show ?thesis
    by (simp only: empty_resources_None)
qed

text \<open>
  The theorem at a report whose one requested service has a resource: the refresh is
  active.
\<close>

theorem GetQuota_active_iff_witness:
  "fst (limesCCloudProjectQuotaV1GetQuota ''d'' ''p'' [''compute'' \<mapsto> Map.empty] 5
          \<lparr>answers = \<lambda>n d p. Inr (Some \<lparr>UUID = ''p'', Services = [(''compute'', \<lparr>Resources = [(''cores'', \<lparr>Quota = Some 10, Unit = ''''\<rparr>)]\<rparr>)]\<rparr>),
           served = 0\<rparr>)
   = Inr (Some \<lparr>UUID = ''p'', Services = [(''compute'', \<lparr>Resources = [(''cores'', \<lparr>Quota = Some 10, Unit = ''''\<rparr>)]\<rparr>)]\<rparr>,
      ''active'', None)"
  using GetQuota_active_iff [of "\<lparr>answers = \<lambda>n d p. Inr (Some \<lparr>UUID = ''p'', Services = [(''compute'', \<lparr>Resources = [(''cores'', \<lparr>Quota = Some 10, Unit = ''''\<rparr>)]\<rparr>)]\<rparr>), served = 0\<rparr>"
      "''d''" "''p''" _ "[''compute'' \<mapsto> Map.empty]" 5]
  by simp

text \<open>
  C1 as the spec words it fails twice. With a zero timeout the refresh is active although
  the requested service \<^verbatim>\<open>compute\<close> has an empty resource list in the report; with a
  positive timeout it is active although the report has no entry at all for the requested
  service.
\<close>

theorem GetQuota_active_unpopulated_counterexample:
  "fst (limesCCloudProjectQuotaV1GetQuota ''d'' ''p'' [''compute'' \<mapsto> Map.empty] 0
          \<lparr>answers = \<lambda>n d p. Inr (Some \<lparr>UUID = ''p'', Services = [(''compute'', \<lparr>Resources = []\<rparr>)]\<rparr>), served = 0\<rparr>)
     = Inr (Some \<lparr>UUID = ''p'', Services = [(''compute'', \<lparr>Resources = []\<rparr>)]\<rparr>, ''active'', None)
   \<and> fst (limesCCloudProjectQuotaV1GetQuota ''d'' ''p'' [''compute'' \<mapsto> Map.empty] 5
          \<lparr>answers = \<lambda>n d p. Inr (Some \<lparr>UUID = ''p'', Services = []\<rparr>), served = 0\<rparr>)
     = Inr (Some \<lparr>UUID = ''p'', Services = []\<rparr>, ''active'', None)"
  by (simp add: limesCCloudProjectQuotaV1GetQuota_def projects_Get_def)

text \<open>
  C2, as the code has it. For a report retrieved without error that holds a service which
  the request names and whose resource list is empty, and a positive timeout, the refresh
  reports a pending state: no result, the message about empty resources (not empty, not
  \<^verbatim>\<open>active\<close>), no error.
\<close>

theorem GetQuota_empty_requested_pending:
  assumes "answers client (served client) d p = Inr (Some report)"
    and "(k, s) \<in> set (Services report)" and "services k \<noteq> None" and "Resources s = []"
    and "0 < timeout"
  shows "fst (limesCCloudProjectQuotaV1GetQuota d p services timeout client)
           = Inr (None, ''There are empty resources: map[]'', None)"
proof -
  have "empty_resources services timeout (Services report) \<noteq> None"
    using assms(2-5) by (auto simp: empty_resources_None)
  then obtain m where m: "empty_resources services timeout (Services report) = Some m"
    by auto
  then have "m = ''There are empty resources: map[]''"
    by (rule empty_resources_Some)
  with m assms(1) show ?thesis
    by (simp add: GetQuota_report)
qed

theorem GetQuota_empty_requested_pending_witness:
  "fst (limesCCloudProjectQuotaV1GetQuota ''d'' ''p'' [''compute'' \<mapsto> Map.empty] 5
          \<lparr>answers = \<lambda>n d p. Inr (Some \<lparr>UUID = ''p'', Services = [(''compute'', \<lparr>Resources = []\<rparr>)]\<rparr>), served = 0\<rparr>)
     = Inr (None, ''There are empty resources: map[]'', None)"
  using GetQuota_empty_requested_pending [of "\<lparr>answers = \<lambda>n d p. Inr (Some \<lparr>UUID = ''p'', Services = [(''compute'', \<lparr>Resources = []\<rparr>)]\<rparr>), served = 0\<rparr>"
      "''d''" "''p''" _ "''compute''" "\<lparr>Resources = []\<rparr>" "[''compute'' \<mapsto> Map.empty]" 5]
  by simp

text \<open>
  C2 as the spec words it fails: the report holds the service \<^verbatim>\<open>dns\<close> with an empty
  resource list and the timeout is positive, but the request names only \<^verbatim>\<open>compute\<close>, and
  the refresh is active.
\<close>

theorem GetQuota_empty_unrequested_counterexample:
  "(''dns'', \<lparr>Resources = []\<rparr>) \<in> set (Services \<lparr>UUID = ''p'', Services = [(''dns'', \<lparr>Resources = []\<rparr>)]\<rparr>)
   \<and> (0::int) < 5
   \<and> fst (limesCCloudProjectQuotaV1GetQuota ''d'' ''p'' [''compute'' \<mapsto> Map.empty] 5
          \<lparr>answers = \<lambda>n d p. Inr (Some \<lparr>UUID = ''p'', Services = [(''dns'', \<lparr>Resources = []\<rparr>)]\<rparr>), served = 0\<rparr>)
     = Inr (Some \<lparr>UUID = ''p'', Services = [(''dns'', \<lparr>Resources = []\<rparr>)]\<rparr>, ''active'', None)"
  by (simp add: limesCCloudProjectQuotaV1GetQuota_def projects_Get_def)

text \<open>
  C3. When the remote answers the request with a 404: under a positive timeout the
  refresh reports a pending state (no result, a message that is not empty, no error);
  under a timeout that is not positive, zero in particular, it returns an error (no
  result, the empty message, an error).
\<close>

theorem GetQuota_not_found:
  assumes "answers client (served client) d p = Inl (ErrDefault404 t)"
  shows "(0 < timeout \<longrightarrow>
            fst (limesCCloudProjectQuotaV1GetQuota d p services timeout client)
              = Inr (None, unable_to_retrieve d p (ErrDefault404 t), None)
            \<and> unable_to_retrieve d p (ErrDefault404 t) \<noteq> [])
       \<and> (timeout \<le> 0 \<longrightarrow>
            fst (limesCCloudProjectQuotaV1GetQuota d p services timeout client)
              = Inr (None, [], Some (ErrorString (unable_to_retrieve d p (ErrDefault404 t)))))"
  using assms by (simp add: GetQuota_error unable_to_retrieve_nonempty)

theorem GetQuota_not_found_witness:
  "fst (limesCCloudProjectQuotaV1GetQuota ''d'' ''p'' Map.empty 5
          \<lparr>answers = \<lambda>n d p. Inl (ErrDefault404 ''Resource not found''), served = 0\<rparr>)
     = Inr (None, ''Unable to retrieve d/p ccloud_quota_project_v1: Resource not found'', None)
   \<and> fst (limesCCloudProjectQuotaV1GetQuota ''d'' ''p'' Map.empty 0
          \<lparr>answers = \<lambda>n d p. Inl (ErrDefault404 ''Resource not found''), served = 0\<rparr>)
     = Inr (None, [], Some (ErrorString ''Unable to retrieve d/p ccloud_quota_project_v1: Resource not found''))"
  using GetQuota_not_found [of "\<lparr>answers = \<lambda>n d p. Inl (ErrDefault404 ''Resource not found''), served = 0\<rparr>"
      "''d''" "''p''" "''Resource not found''" 5 Map.empty]
    GetQuota_not_found [of "\<lparr>answers = \<lambda>n d p. Inl (ErrDefault404 ''Resource not found''), served = 0\<rparr>"
      "''d''" "''p''" "''Resource not found''" 0 Map.empty]
  by (simp add: unable_to_retrieve_def)

text \<open>
  Every refresh is one request, and ends in one of four ways: pending, active, failed,
  or in a panic.
\<close>

lemma GetQuota_cases:
  obtains (pending) msg where
      "limesCCloudProjectQuotaV1GetQuota d p services timeout client
         = (Inr (None, msg, None), client\<lparr>served := Suc (served client)\<rparr>)"
      "msg \<noteq> []" "msg \<noteq> ''active''" "0 < timeout"
  | (active) report where
      "limesCCloudProjectQuotaV1GetQuota d p services timeout client
         = (Inr (Some report, ''active'', None), client\<lparr>served := Suc (served client)\<rparr>)"
  | (failed) e where
      "limesCCloudProjectQuotaV1GetQuota d p services timeout client
         = (Inr (None, [], Some e), client\<lparr>served := Suc (served client)\<rparr>)"
  | (panicked)
      "limesCCloudProjectQuotaV1GetQuota d p services timeout client
         = (Inl NilDereference, client\<lparr>served := Suc (served client)\<rparr>)"
      "answers client (served client) d p = Inr None"
proof (cases "answers client (served client) d p")
  case (Inl e)
  show ?thesis
  proof (cases "is_ErrDefault404 e \<and> 0 < timeout")
    case True
    with Inl show ?thesis
      by (intro pending [of "unable_to_retrieve d p e"])
         (simp_all add: limesCCloudProjectQuotaV1GetQuota_def projects_Get_def
            unable_to_retrieve_nonempty unable_to_retrieve_not_active)
  next
    case False
    with Inl show ?thesis
      by (intro failed [of "ErrorString (unable_to_retrieve d p e)"])
         (simp add: limesCCloudProjectQuotaV1GetQuota_def projects_Get_def)
  qed
next
  case (Inr answer)
  show ?thesis
  proof (cases answer)
    case None
    with Inr show ?thesis
      by (intro panicked) (simp_all add: limesCCloudProjectQuotaV1GetQuota_def projects_Get_def)
  next
    case (Some report)
    show ?thesis
    proof (cases "empty_resources services timeout (Services report)")
      case None
      with Inr Some show ?thesis
        by (intro active [of report])
           (simp add: limesCCloudProjectQuotaV1GetQuota_def projects_Get_def)
    next
      case (Some msg)
      note found = this
      then have "msg = ''There are empty resources: map[]''"
        by (rule empty_resources_Some)
      moreover have "0 < timeout"
        using found empty_resources_None [of services timeout "Services report"] by auto
      ultimately show ?thesis
        using Inr \<open>answer = Some report\<close> found
        by (intro pending [of msg])
           (simp_all add: limesCCloudProjectQuotaV1GetQuota_def projects_Get_def)
    qed
  qed
qed

text \<open>
  C5, as the code has it. Every refresh whose request is answered with an error or with
  a report ends in exactly one of three shapes, which exclude each other: pending (no
  result, a message that is neither empty nor \<^verbatim>\<open>active\<close>, no error), active (a report,
  the message \<^verbatim>\<open>active\<close>, no error), or failed (no result, the empty message, an error).
  A refresh whose request is answered with neither an error nor a report panics.
\<close>

theorem GetQuota_three_outcomes:
  "(answers client (served client) d p \<noteq> Inr None \<longrightarrow>
      (\<exists>res msg err.
         fst (limesCCloudProjectQuotaV1GetQuota d p services timeout client) = Inr (res, msg, err) \<and>
         ((res = None \<and> msg \<noteq> [] \<and> msg \<noteq> ''active'' \<and> err = None) \<or>
          (res \<noteq> None \<and> msg = ''active'' \<and> err = None) \<or>
          (res = None \<and> msg = [] \<and> err \<noteq> None))))
   \<and> (answers client (served client) d p = Inr None \<longrightarrow>
      fst (limesCCloudProjectQuotaV1GetQuota d p services timeout client) = Inl NilDereference)"
proof (intro conjI impI)
  assume "answers client (served client) d p = Inr None"
  then show "fst (limesCCloudProjectQuotaV1GetQuota d p services timeout client) = Inl NilDereference"
    by (rule GetQuota_nil)
next
  assume answered: "answers client (served client) d p \<noteq> Inr None"
  show "\<exists>res msg err.
         fst (limesCCloudProjectQuotaV1GetQuota d p services timeout client) = Inr (res, msg, err) \<and>
         ((res = None \<and> msg \<noteq> [] \<and> msg \<noteq> ''active'' \<and> err = None) \<or>
          (res \<noteq> None \<and> msg = ''active'' \<and> err = None) \<or>
          (res = None \<and> msg = [] \<and> err \<noteq> None))"
  proof (cases rule: GetQuota_cases [of d p services timeout client])
    case (pending msg)
    then show ?thesis by simp
  next
    case (active report)
    then show ?thesis by simp
  next
    case (failed e)
    then show ?thesis by simp
  next
    case panicked
    with answered show ?thesis by simp
  qed
qed

theorem GetQuota_three_outcomes_witness:
  "\<exists>res msg err.
      fst (limesCCloudProjectQuotaV1GetQuota ''d'' ''p'' Map.empty 5
          \<lparr>answers = \<lambda>n d p. Inl (ErrDefault404 ''Resource not found''), served = 0\<rparr>) = Inr (res, msg, err) \<and>
      ((res = None \<and> msg \<noteq> [] \<and> msg \<noteq> ''active'' \<and> err = None) \<or>
       (res \<noteq> None \<and> msg = ''active'' \<and> err = None) \<or>
       (res = None \<and> msg = [] \<and> err \<noteq> None))"
  using GetQuota_three_outcomes [of "\<lparr>answers = \<lambda>n d p. Inl (ErrDefault404 ''Resource not found''), served = 0\<rparr>"
      "''d''" "''p''" Map.empty 5]
  by simp

text \<open>
  C5 as the spec words it fails: when the request is answered with no error and no
  report, the refresh reads the services of a nil report and panics, which is none of
  the three shapes.
\<close>

theorem GetQuota_nil_report_counterexample:
  "fst (limesCCloudProjectQuotaV1GetQuota ''d'' ''p'' Map.empty 5
          \<lparr>answers = \<lambda>n d p. Inr None, served = 0\<rparr>) = Inl NilDereference"
  by (simp add: limesCCloudProjectQuotaV1GetQuota_def projects_Get_def)

section \<open>Properties of the wait\<close>

lemma GetQuota_nonpositive:
  assumes "timeout \<le> 0"
  shows "limesCCloudProjectQuotaV1GetQuota d p services timeout client =
     (case answers client (served client) d p of
        Inl e \<Rightarrow> Inr (None, [], Some (ErrorString (unable_to_retrieve d p e)))
      | Inr None \<Rightarrow> Inl NilDereference
      | Inr (Some report) \<Rightarrow> Inr (Some report, ''active'', None),
      client\<lparr>served := Suc (served client)\<rparr>)"
proof -
  have "empty_resources services timeout xs = None" for xs
    using assms by (simp add: empty_resources_None)
  with assms show ?thesis
    by (simp add: limesCCloudProjectQuotaV1GetQuota_def projects_Get_def split: sum.splits option.splits)
qed

lemma WaitForProject_nonpositive:
  assumes "timeout \<le> 0"
  shows "limesCCloudProjectQuotaV1WaitForProject wait d p services timeout client =
     Some (case answers client (served client) d p of
             Inl e \<Rightarrow> Inr (Some (ErrorString (unable_to_retrieve d p e)))
           | Inr None \<Rightarrow> Inl NilDereference
           | Inr (Some report) \<Rightarrow> Inr None,
           client\<lparr>served := Suc (served client)\<rparr>)"
proof (cases "answers client (served client) d p")
  case (Inl e)
  with assms show ?thesis
    by (simp add: limesCCloudProjectQuotaV1WaitForProject_def GetQuota_nonpositive)
next
  case (Inr answer)
  with assms show ?thesis
    by (cases answer)
       (simp_all add: limesCCloudProjectQuotaV1WaitForProject_def GetQuota_nonpositive)
qed

lemma WaitForProject_positive:
  "0 < timeout \<Longrightarrow>
   limesCCloudProjectQuotaV1WaitForProject wait d p services timeout client =
     (case wait (waitForAgent d p services timeout) client of
        None \<Rightarrow> None
      | Some (Inl pn, client') \<Rightarrow> Some (Inl pn, client')
      | Some (Inr (res, err), client') \<Rightarrow> Some (Inr err, client'))"
  by (auto simp: limesCCloudProjectQuotaV1WaitForProject_def split: option.splits sum.splits)

text \<open>The refresh at the \<open>i\<close>-th request from now, and the remote it leaves.\<close>

lemma GetQuota_refresh_at:
  "limesCCloudProjectQuotaV1GetQuota d p services timeout (client\<lparr>served := served client + i\<rparr>)
     = (refresh_at d p services timeout client i, client\<lparr>served := served client + Suc i\<rparr>)"
  using GetQuota_served [of d p services timeout "client\<lparr>served := served client + i\<rparr>"]
  by (simp add: refresh_at_def prod_eq_iff)

lemma GetQuota_refresh_at_0:
  "limesCCloudProjectQuotaV1GetQuota d p services timeout client
     = (refresh_at d p services timeout client 0, client\<lparr>served := Suc (served client)\<rparr>)"
  using GetQuota_refresh_at [of d p services timeout client 0] by simp

lemma refresh_at_shift:
  "refresh_at d p services timeout (client\<lparr>served := Suc (served client)\<rparr>) i
     = refresh_at d p services timeout client (Suc i)"
  by (simp add: refresh_at_def)

text \<open>One round of the modelled loop on the configuration of the wait.\<close>

lemma poll_timeout:
  "timeout \<le> elapsed \<Longrightarrow>
   poll (waitForAgent d p services timeout) elapsed ticks checks client
     = Some (Inr (None, Some (TimeoutError [''active''])), checks, client)"
  by (subst poll.simps) (simp add: waitForAgent_def)

lemma poll_pending_step:
  assumes "elapsed < timeout" and "refresh_at d p services timeout client 0 = Inr (None, msg, None)"
    and "ticks < 1000"
  shows "poll (waitForAgent d p services timeout) elapsed ticks checks client
     = poll (waitForAgent d p services timeout) (elapsed + Second) (Suc ticks) (checks @ [elapsed])
         (client\<lparr>served := Suc (served client)\<rparr>)"
  using assms
  by (subst poll.simps) (simp add: waitForAgent_def GetQuota_refresh_at_0)

lemma poll_notfound:
  assumes "elapsed < timeout" and "refresh_at d p services timeout client 0 = Inr (None, msg, None)"
    and "1000 \<le> ticks"
  shows "poll (waitForAgent d p services timeout) elapsed ticks checks client
     = Some (Inr (None, Some NotFoundError), checks @ [elapsed], client\<lparr>served := Suc (served client)\<rparr>)"
  using assms
  by (subst poll.simps) (simp add: waitForAgent_def GetQuota_refresh_at_0)

lemma poll_terminal:
  assumes "elapsed < timeout" and "\<forall>msg. refresh_at d p services timeout client 0 \<noteq> Inr (None, msg, None)"
  shows "poll (waitForAgent d p services timeout) elapsed ticks checks client
     = Some (case refresh_at d p services timeout client 0 of
               Inl pn \<Rightarrow> Inl pn
             | Inr (res, st, err) \<Rightarrow> Inr (res, err),
             checks @ [elapsed], client\<lparr>served := Suc (served client)\<rparr>)"
proof (cases rule: GetQuota_cases [of d p services timeout client])
  case (pending msg)
  with assms(2) show ?thesis
    by (simp add: refresh_at_def)
next
  case (active report)
  then have "refresh_at d p services timeout client 0 = Inr (Some report, ''active'', None)"
    by (simp add: refresh_at_def)
  with assms(1) show ?thesis
    by (subst poll.simps) (simp add: waitForAgent_def GetQuota_refresh_at_0)
next
  case (failed e)
  then have "refresh_at d p services timeout client 0 = Inr (None, [], Some e)"
    by (simp add: refresh_at_def)
  with assms(1) show ?thesis
    by (subst poll.simps) (simp add: waitForAgent_def GetQuota_refresh_at_0)
next
  case panicked
  then have "refresh_at d p services timeout client 0 = Inl NilDereference"
    by (simp add: refresh_at_def)
  with assms(1) show ?thesis
    by (subst poll.simps) (simp add: waitForAgent_def GetQuota_refresh_at_0)
qed

text \<open>
  While the refresh is pending, the clock is before the timeout and the nil results are
  within the allowance, the loop goes round: \<open>j\<close> rounds are \<open>j\<close> requests, one second
  apart.
\<close>

lemma poll_pending_rounds:
  assumes "\<forall>i<j. \<exists>msg. refresh_at d p services timeout client i = Inr (None, msg, None)"
    and "j = 0 \<or> elapsed + (int j - 1) * Second < timeout"
    and "ticks + j \<le> 1000"
  shows "poll (waitForAgent d p services timeout) elapsed ticks checks client
     = poll (waitForAgent d p services timeout) (elapsed + int j * Second) (ticks + j)
         (checks @ map (\<lambda>i. elapsed + int i * Second) [0..<j])
         (client\<lparr>served := served client + j\<rparr>)"
  using assms
proof (induction j arbitrary: elapsed ticks checks client)
  case 0
  then show ?case by simp
next
  case (Suc j)
  let ?c = "client\<lparr>served := Suc (served client)\<rparr>"
  obtain msg where first: "refresh_at d p services timeout client 0 = Inr (None, msg, None)"
    using Suc.prems(1) by blast
  have before: "elapsed < timeout"
  proof -
    have "0 \<le> int j * Second"
      using Second_pos by simp
    with Suc.prems(2) show ?thesis by simp
  qed
  have "poll (waitForAgent d p services timeout) elapsed ticks checks client
      = poll (waitForAgent d p services timeout) (elapsed + Second) (Suc ticks) (checks @ [elapsed]) ?c"
    using before first Suc.prems(3) by (intro poll_pending_step) auto
  also have "\<dots> = poll (waitForAgent d p services timeout) (elapsed + Second + int j * Second) (Suc ticks + j)
         ((checks @ [elapsed]) @ map (\<lambda>i. elapsed + Second + int i * Second) [0..<j])
         (?c\<lparr>served := served ?c + j\<rparr>)"
  proof (rule Suc.IH)
    show "\<forall>i<j. \<exists>msg. refresh_at d p services timeout ?c i = Inr (None, msg, None)"
      using Suc.prems(1) by (simp add: refresh_at_shift)
    show "j = 0 \<or> elapsed + Second + (int j - 1) * Second < timeout"
      using Suc.prems(2) by (simp add: algebra_simps)
    show "Suc ticks + j \<le> 1000"
      using Suc.prems(3) by simp
  qed
  also have "(checks @ [elapsed]) @ map (\<lambda>i. elapsed + Second + int i * Second) [0..<j]
      = checks @ map (\<lambda>i. elapsed + int i * Second) [0..<Suc j]"
    by (simp add: map_upt_Suc algebra_simps del: upt_Suc)
  finally show ?case
    by (simp add: algebra_simps)
qed

lemma refresh_at_base:
  "refresh_at d p services timeout (client\<lparr>served := served client + j\<rparr>) i
     = refresh_at d p services timeout client (j + i)"
  by (simp add: refresh_at_def add.assoc)

text \<open>
  The three ways in which the modelled loop ends on the configuration of the wait, from
  its start one second in: at the first refresh that is not pending, at the timeout, or
  at the 1001st nil result.
\<close>

lemma poll_ends_at_terminal:
  assumes "\<forall>i<j. \<exists>msg. refresh_at d p services timeout client i = Inr (None, msg, None)"
    and "\<forall>msg. refresh_at d p services timeout client j \<noteq> Inr (None, msg, None)"
    and "int (Suc j) * Second < timeout" and "j \<le> 1000"
  shows "poll (waitForAgent d p services timeout) Second 0 [] client
     = Some (case refresh_at d p services timeout client j of
               Inl pn \<Rightarrow> Inl pn
             | Inr (res, st, err) \<Rightarrow> Inr (res, err),
             map (\<lambda>i. int (Suc i) * Second) [0..<Suc j],
             client\<lparr>served := served client + Suc j\<rparr>)"
proof -
  let ?c = "client\<lparr>served := served client + j\<rparr>"
  have clock: "Second + int j * Second < timeout"
    using assms(3) by (simp add: algebra_simps)
  have rounds: "j = 0 \<or> Second + (int j - 1) * Second < timeout"
    using clock Second_pos by (simp add: algebra_simps)
  have terminal: "\<forall>msg. refresh_at d p services timeout ?c 0 \<noteq> Inr (None, msg, None)"
    using assms(2) by (simp add: refresh_at_base)
  have "poll (waitForAgent d p services timeout) Second 0 [] client
      = poll (waitForAgent d p services timeout) (Second + int j * Second) (0 + j)
          ([] @ map (\<lambda>i. Second + int i * Second) [0..<j]) ?c"
    using assms(1,4) rounds by (intro poll_pending_rounds) auto
  also have "\<dots> = Some (case refresh_at d p services timeout ?c 0 of
               Inl pn \<Rightarrow> Inl pn
             | Inr (res, st, err) \<Rightarrow> Inr (res, err),
             ([] @ map (\<lambda>i. Second + int i * Second) [0..<j]) @ [Second + int j * Second],
             ?c\<lparr>served := Suc (served ?c)\<rparr>)"
    using clock terminal by (intro poll_terminal)
  finally show ?thesis
    unfolding refresh_at_base by (simp add: algebra_simps)
qed



text \<open>What the wait and the clock's readings are, from where the modelled loop ends.\<close>

lemma wait_of_poll:
  assumes "0 < timeout"
    and "poll (waitForAgent d p services timeout) Second 0 [] client = Some (outcome, checks, client')"
  shows "limesCCloudProjectQuotaV1WaitForProject WaitForStateContext d p services timeout client
           = Some (case outcome of Inl pn \<Rightarrow> Inl pn | Inr (res, err) \<Rightarrow> Inr err, client')"
    and "check_times (waitForAgent d p services timeout) client = Some checks"
proof -
  have delay: "Delay (waitForAgent d p services timeout) = Second"
    by (simp add: waitForAgent_def)
  show "check_times (waitForAgent d p services timeout) client = Some checks"
    using assms(2) by (simp add: check_times_def delay)
  have "WaitForStateContext (waitForAgent d p services timeout) client = Some (outcome, client')"
    using assms(2) by (simp add: WaitForStateContext_def delay)
  with assms(1)
  show "limesCCloudProjectQuotaV1WaitForProject WaitForStateContext d p services timeout client
           = Some (case outcome of Inl pn \<Rightarrow> Inl pn | Inr (res, err) \<Rightarrow> Inr err, client')"
    by (cases outcome) (auto simp: WaitForProject_positive)
qed

text \<open>
  After pending rounds, a refresh that fails ends the modelled loop with an error, its
  own or an earlier one of the loop, and with no request after it.
\<close>

lemma poll_error_within:
  assumes "\<forall>i<j. \<exists>msg. refresh_at d p services timeout client i = Inr (None, msg, None)"
    and "refresh_at d p services timeout client j = Inr (None, [], Some e)"
  shows "\<exists>e' k chk. poll (waitForAgent d p services timeout) elapsed ticks checks client
            = Some (Inr (None, Some e'), chk, client\<lparr>served := served client + k\<rparr>) \<and> k \<le> Suc j"
  using assms
proof (induction j arbitrary: elapsed ticks checks client)
  case 0
  show ?case
  proof (cases "timeout \<le> elapsed")
    case True
    then have "poll (waitForAgent d p services timeout) elapsed ticks checks client
        = Some (Inr (None, Some (TimeoutError [''active''])), checks, client\<lparr>served := served client + 0\<rparr>)"
      by (simp add: poll_timeout)
    then show ?thesis
      by (intro exI [of _ "TimeoutError [''active'']"] exI [of _ 0] exI [of _ checks]) simp
  next
    case False
    with 0 have "poll (waitForAgent d p services timeout) elapsed ticks checks client
        = Some (Inr (None, Some e), checks @ [elapsed], client\<lparr>served := served client + 1\<rparr>)"
      by (simp add: poll_terminal)
    then show ?thesis
      by (intro exI [of _ e] exI [of _ 1] exI [of _ "checks @ [elapsed]"]) simp
  qed
next
  case (Suc j)
  let ?c = "client\<lparr>served := Suc (served client)\<rparr>"
  obtain msg where first: "refresh_at d p services timeout client 0 = Inr (None, msg, None)"
    using Suc.prems(1) by blast
  show ?case
  proof (cases "timeout \<le> elapsed")
    case True
    then have "poll (waitForAgent d p services timeout) elapsed ticks checks client
        = Some (Inr (None, Some (TimeoutError [''active''])), checks, client\<lparr>served := served client + 0\<rparr>)"
      by (simp add: poll_timeout)
    then show ?thesis
      by (intro exI [of _ "TimeoutError [''active'']"] exI [of _ 0] exI [of _ checks]) simp
  next
    case False
    show ?thesis
    proof (cases "ticks < 1000")
      case True
      have "\<forall>i<j. \<exists>msg. refresh_at d p services timeout ?c i = Inr (None, msg, None)"
        using Suc.prems(1) by (simp add: refresh_at_shift)
      moreover have "refresh_at d p services timeout ?c j = Inr (None, [], Some e)"
        using Suc.prems(2) by (simp add: refresh_at_shift)
      ultimately obtain e' k chk where
        "poll (waitForAgent d p services timeout) (elapsed + Second) (Suc ticks) (checks @ [elapsed]) ?c
           = Some (Inr (None, Some e'), chk, ?c\<lparr>served := served ?c + k\<rparr>)" and "k \<le> Suc j"
        using Suc.IH by blast
      with False True first
      have "poll (waitForAgent d p services timeout) elapsed ticks checks client
          = Some (Inr (None, Some e'), chk, client\<lparr>served := served client + Suc k\<rparr>)"
        by (simp add: poll_pending_step)
      with \<open>k \<le> Suc j\<close> show ?thesis
        by (intro exI [of _ e'] exI [of _ "Suc k"] exI [of _ chk]) simp
    next
      case many: False
      with False first
      have "poll (waitForAgent d p services timeout) elapsed ticks checks client
          = Some (Inr (None, Some NotFoundError), checks @ [elapsed], client\<lparr>served := served client + 1\<rparr>)"
        by (simp add: poll_notfound)
      then show ?thesis
        by (intro exI [of _ NotFoundError] exI [of _ 1] exI [of _ "checks @ [elapsed]"]) simp
    qed
  qed
qed


text \<open>
  C4. When the remote answers a request with an error other than a 404, the refresh at
  that request returns an error built from it whatever the timeout (no result, the empty
  message, an error). The wait then returns an error, also when pending rounds came
  before that request. Under a timeout that is not positive the error is the refresh's
  own, after the one request. Under a positive timeout, with the polling primitive as
  modelled, the error is the refresh's own and the failing request is the last one made
  whenever the clock and the allowance of nil results let the loop reach that request;
  otherwise the loop has ended earlier, with an error of its own.
\<close>

theorem GetQuota_other_error_terminal:
  assumes "answers client (served client + j) d p = Inl e" and "\<not> is_ErrDefault404 e"
    and "\<forall>i<j. \<exists>msg. refresh_at d p services timeout client i = Inr (None, msg, None)"
  shows "fst (limesCCloudProjectQuotaV1GetQuota d p services timeout (client\<lparr>served := served client + j\<rparr>))
           = Inr (None, [], Some (ErrorString (unable_to_retrieve d p e)))
       \<and> (\<exists>e' k. limesCCloudProjectQuotaV1WaitForProject WaitForStateContext d p services timeout client
                    = Some (Inr (Some e'), client\<lparr>served := served client + k\<rparr>)
                \<and> k \<le> Suc j
                \<and> (timeout \<le> 0 \<or> (int (Suc j) * Second < timeout \<and> j \<le> 1000)
                     \<longrightarrow> e' = ErrorString (unable_to_retrieve d p e) \<and> k = Suc j))"
proof
  let ?failure = "ErrorString (unable_to_retrieve d p e)"
  show refresh: "fst (limesCCloudProjectQuotaV1GetQuota d p services timeout (client\<lparr>served := served client + j\<rparr>))
           = Inr (None, [], Some ?failure)"
    using assms(1,2) GetQuota_error [of "client\<lparr>served := served client + j\<rparr>" d p e services timeout]
    by simp
  then have at_j: "refresh_at d p services timeout client j = Inr (None, [], Some ?failure)"
    by (simp add: refresh_at_def)
  show "\<exists>e' k. limesCCloudProjectQuotaV1WaitForProject WaitForStateContext d p services timeout client
                    = Some (Inr (Some e'), client\<lparr>served := served client + k\<rparr>)
                \<and> k \<le> Suc j
                \<and> (timeout \<le> 0 \<or> (int (Suc j) * Second < timeout \<and> j \<le> 1000)
                     \<longrightarrow> e' = ?failure \<and> k = Suc j)"
  proof (cases "0 < timeout")
    case False
    have "j = 0"
    proof (rule ccontr)
      assume "j \<noteq> 0"
      then obtain msg where "refresh_at d p services timeout client 0 = Inr (None, msg, None)"
        using assms(3) by blast
      with False show False
        by (simp add: refresh_at_def GetQuota_nonpositive split: sum.splits option.splits)
    qed
    with False assms(1)
    have "limesCCloudProjectQuotaV1WaitForProject WaitForStateContext d p services timeout client
        = Some (Inr (Some ?failure), client\<lparr>served := served client + Suc j\<rparr>)"
      by (simp add: WaitForProject_nonpositive)
    then show ?thesis
      by (intro exI [of _ ?failure] exI [of _ "Suc j"]) simp
  next
    case True
    show ?thesis
    proof (cases "int (Suc j) * Second < timeout \<and> j \<le> 1000")
      case reached: True
      have "poll (waitForAgent d p services timeout) Second 0 [] client
          = Some (case refresh_at d p services timeout client j of
                    Inl pn \<Rightarrow> Inl pn
                  | Inr (res, st, err) \<Rightarrow> Inr (res, err),
                  map (\<lambda>i. int (Suc i) * Second) [0..<Suc j],
                  client\<lparr>served := served client + Suc j\<rparr>)"
        using assms(3) at_j reached by (intro poll_ends_at_terminal) auto
      then have "limesCCloudProjectQuotaV1WaitForProject WaitForStateContext d p services timeout client
          = Some (Inr (Some ?failure), client\<lparr>served := served client + Suc j\<rparr>)"
        using wait_of_poll(1) [OF True] at_j by fastforce
      then show ?thesis
        by (intro exI [of _ ?failure] exI [of _ "Suc j"]) simp
    next
      case earlier: False
      obtain e' k chk where
        "poll (waitForAgent d p services timeout) Second 0 [] client
           = Some (Inr (None, Some e'), chk, client\<lparr>served := served client + k\<rparr>)" and "k \<le> Suc j"
        using poll_error_within [OF assms(3) at_j] by blast
      then have "limesCCloudProjectQuotaV1WaitForProject WaitForStateContext d p services timeout client
          = Some (Inr (Some e'), client\<lparr>served := served client + k\<rparr>)"
        using wait_of_poll(1) [OF True] by fastforce
      with \<open>k \<le> Suc j\<close> True earlier show ?thesis
        by (intro exI [of _ e'] exI [of _ k]) auto
    qed
  qed
qed

text \<open>
  The theorem at a remote that answers the first request with a 404 and the second with
  an internal error, under a timeout of five seconds: the wait makes the two requests
  and returns the error of the second refresh.
\<close>

theorem GetQuota_other_error_terminal_witness:
  "fst (limesCCloudProjectQuotaV1GetQuota ''d'' ''p'' Map.empty (5 * Second)
          \<lparr>answers = \<lambda>n d p. if n = 0 then Inl (ErrDefault404 ''Resource not found'')
                               else Inl (ErrOther ''Internal Server Error''),
           served = 1\<rparr>)
     = Inr (None, [], Some (ErrorString ''Unable to retrieve d/p ccloud_quota_project_v1: Internal Server Error''))
   \<and> limesCCloudProjectQuotaV1WaitForProject WaitForStateContext ''d'' ''p'' Map.empty (5 * Second)
          \<lparr>answers = \<lambda>n d p. if n = 0 then Inl (ErrDefault404 ''Resource not found'')
                               else Inl (ErrOther ''Internal Server Error''),
           served = 0\<rparr>
     = Some (Inr (Some (ErrorString ''Unable to retrieve d/p ccloud_quota_project_v1: Internal Server Error'')),
             \<lparr>answers = \<lambda>n d p. if n = 0 then Inl (ErrDefault404 ''Resource not found'')
                                  else Inl (ErrOther ''Internal Server Error''),
              served = 2\<rparr>)"
  using GetQuota_other_error_terminal [of
      "\<lparr>answers = \<lambda>n d p. if n = 0 then Inl (ErrDefault404 ''Resource not found'')
                            else Inl (ErrOther ''Internal Server Error''),
        served = 0\<rparr>"
      1 "''d''" "''p''" "ErrOther ''Internal Server Error''" Map.empty "5 * Second"]
  by (simp add: refresh_at_def limesCCloudProjectQuotaV1GetQuota_def projects_Get_def
        unable_to_retrieve_def Second_def)






text \<open>
  C8. Under a timeout that is not positive, zero in particular, the wait makes exactly
  one request and never calls the polling primitive, whatever that is; when the request
  yields a report the wait returns nil, also when requested services of the report have
  empty resource lists; when it yields an error the wait returns an error, and when it
  yields neither the wait panics.
\<close>

theorem WaitForProject_zero_timeout_single_get:
  "timeout \<le> 0 \<Longrightarrow>
   limesCCloudProjectQuotaV1WaitForProject wait d p services timeout client =
     Some (case answers client (served client) d p of
             Inl e \<Rightarrow> Inr (Some (ErrorString (unable_to_retrieve d p e)))
           | Inr None \<Rightarrow> Inl NilDereference
           | Inr (Some report) \<Rightarrow> Inr None,
           client\<lparr>served := Suc (served client)\<rparr>)"
  by (rule WaitForProject_nonpositive)

theorem WaitForProject_zero_timeout_single_get_witness:
  "limesCCloudProjectQuotaV1WaitForProject WaitForStateContext ''d'' ''p'' [''compute'' \<mapsto> Map.empty] 0
       \<lparr>answers = \<lambda>n d p. Inr (Some \<lparr>UUID = ''p'', Services = [(''compute'', \<lparr>Resources = []\<rparr>)]\<rparr>), served = 0\<rparr>
     = Some (Inr None, \<lparr>answers = \<lambda>n d p. Inr (Some \<lparr>UUID = ''p'', Services = [(''compute'', \<lparr>Resources = []\<rparr>)]\<rparr>), served = 1\<rparr>)"
  using WaitForProject_zero_timeout_single_get [of 0 WaitForStateContext "''d''" "''p''" "[''compute'' \<mapsto> Map.empty]"
      "\<lparr>answers = \<lambda>n d p. Inr (Some \<lparr>UUID = ''p'', Services = [(''compute'', \<lparr>Resources = []\<rparr>)]\<rparr>), served = 0\<rparr>"]
  by simp

section \<open>Properties of the billing helpers\<close>

text \<open>The loop passes over the elements before the first map and runs its body on that map.\<close>

lemma expandCostObjectElements_first_map:
  "\<forall>x\<in>set pre. \<forall>m. x \<noteq> AMap m \<Longrightarrow>
   expandCostObjectElements (pre @ AMap v # post) = expandCostObjectMap v"
proof (induction pre)
  case Nil
  then show ?case by simp
next
  case (Cons x pre)
  then show ?case by (cases x) simp_all
qed

text \<open>
  C9, as the code has it. For an input that is a \<^verbatim>\<open>[]any\<close> and whose first element that
  is a map is \<open>v\<close>: when \<open>v\<close> sets \<^verbatim>\<open>inherited\<close> to true, the cost object returned has
  Inherited true and an empty Name and Type, whatever \<open>v\<close> holds under \<^verbatim>\<open>name\<close> and
  \<^verbatim>\<open>type\<close>; when \<^verbatim>\<open>inherited\<close> is absent or false, the strings under \<^verbatim>\<open>name\<close> and
  \<^verbatim>\<open>type\<close> are copied. An input that is not a \<^verbatim>\<open>[]any\<close> gives the zero cost object.
\<close>

theorem ExpandCostObject_inherited_drops_name_and_type:
  assumes "\<forall>x\<in>set pre. \<forall>m. x \<noteq> AMap m"
  shows "(v ''inherited'' = Some (ABool True) \<longrightarrow>
            billingProjectExpandCostObject (ASlice (pre @ AMap v # post))
              = Inr \<lparr>Inherited = True, Name = [], Type = []\<rparr>)
       \<and> ((v ''inherited'' = None \<or> v ''inherited'' = Some (ABool False)) \<and>
          v ''name'' = Some (AString n) \<and> v ''type'' = Some (AString t) \<longrightarrow>
            billingProjectExpandCostObject (ASlice (pre @ AMap v # post))
              = Inr \<lparr>Inherited = False, Name = n, Type = t\<rparr>)
       \<and> ((\<forall>xs. raw \<noteq> ASlice xs) \<longrightarrow>
            billingProjectExpandCostObject raw = Inr \<lparr>Inherited = False, Name = [], Type = []\<rparr>)"
proof (intro conjI)
  show "(\<forall>xs. raw \<noteq> ASlice xs) \<longrightarrow>
            billingProjectExpandCostObject raw = Inr \<lparr>Inherited = False, Name = [], Type = []\<rparr>"
    by (cases raw) (simp_all add: zero_cost_object_def)
qed (use assms in \<open>auto simp: expandCostObjectElements_first_map expandCostObjectMap_def zero_cost_object_def\<close>)

theorem ExpandCostObject_inherited_drops_name_and_type_witness:
  "billingProjectExpandCostObject
     (ASlice [AString ''x'',
              AMap [''inherited'' \<mapsto> ABool True, ''name'' \<mapsto> AString ''cc-1'', ''type'' \<mapsto> AString ''CC''],
              AMap [''name'' \<mapsto> AString ''other'']])
     = Inr \<lparr>Inherited = True, Name = [], Type = []\<rparr>
   \<and> billingProjectExpandCostObject
     (ASlice [AString ''x'',
              AMap [''inherited'' \<mapsto> ABool False, ''name'' \<mapsto> AString ''cc-1'', ''type'' \<mapsto> AString ''CC'']])
     = Inr \<lparr>Inherited = False, Name = ''cc-1'', Type = ''CC''\<rparr>"
  using ExpandCostObject_inherited_drops_name_and_type [of "[AString ''x'']"
      "[''inherited'' \<mapsto> ABool True, ''name'' \<mapsto> AString ''cc-1'', ''type'' \<mapsto> AString ''CC'']"
      "[AMap [''name'' \<mapsto> AString ''other'']]" "''cc-1''" "''CC''"]
    ExpandCostObject_inherited_drops_name_and_type [of "[AString ''x'']"
      "[''inherited'' \<mapsto> ABool False, ''name'' \<mapsto> AString ''cc-1'', ''type'' \<mapsto> AString ''CC'']"
      "[]" "''cc-1''" "''CC''"]
  by simp

text \<open>
  C9 as the spec words it fails: an input that is a \<^verbatim>\<open>[]map[string]any\<close>, the type that
  the flatten helpers return, has a first map element, and that element sets
  \<^verbatim>\<open>inherited\<close> to true; the assertion to \<^verbatim>\<open>[]any\<close> fails on it, and the cost object
  returned is the zero value, with Inherited false.
\<close>

theorem ExpandCostObject_map_slice_counterexample:
  "billingProjectExpandCostObject
     (AMapSlice [[''inherited'' \<mapsto> ABool True, ''name'' \<mapsto> AString ''cc-1'', ''type'' \<mapsto> AString ''CC'']])
     = Inr \<lparr>Inherited = False, Name = [], Type = []\<rparr>"
  by (simp add: zero_cost_object_def)

text \<open>
  C10, as the code has it. When the maps that flatten returns for a certification \<open>e\<close>
  reach expand as the elements of a \<^verbatim>\<open>[]any\<close>, expand returns \<open>e\<close> with SOX set to false:
  it agrees with \<open>e\<close> on C5, ISO, PCI, SOC1 and SOC2, and flatten's key \<^verbatim>\<open>sox\<close> is not the
  key \<^verbatim>\<open>SOX\<close> that expand reads. The round trip gives back \<open>e\<close> exactly when SOX is false
  in \<open>e\<close>. Handed to expand as it is, a \<^verbatim>\<open>[]map[string]any\<close>, what flatten returns gives
  nil.
\<close>

theorem ExtCertification_round_trip_loses_SOX:
  "billingProjectExpandExtCertificationV1
     (ASlice (map AMap (billingProjectFlattenExtCertificationV1 (Some e)))) = Some (e\<lparr>SOX := False\<rparr>)
   \<and> (billingProjectExpandExtCertificationV1
        (ASlice (map AMap (billingProjectFlattenExtCertificationV1 (Some e)))) = Some e) = (\<not> SOX e)
   \<and> billingProjectExpandExtCertificationV1 (AMapSlice (billingProjectFlattenExtCertificationV1 x)) = None"
  by (cases e) (auto simp: expandExtCertificationMap_def zero_ext_certification_def)

theorem ExtCertification_round_trip_loses_SOX_witness:
  "billingProjectExpandExtCertificationV1
     (ASlice (map AMap (billingProjectFlattenExtCertificationV1
        (Some \<lparr>C5 = True, ISO = False, PCI = True, SOC1 = False, SOC2 = True, SOX = True\<rparr>))))
     = Some \<lparr>C5 = True, ISO = False, PCI = True, SOC1 = False, SOC2 = True, SOX = False\<rparr>"
  using ExtCertification_round_trip_loses_SOX [of "\<lparr>C5 = True, ISO = False, PCI = True, SOC1 = False, SOC2 = True, SOX = True\<rparr>"]
  by simp

text \<open>
  C10 as the spec words it fails: handed to expand as it is, flatten's result is a
  \<^verbatim>\<open>[]map[string]any\<close>, expand's assertion to \<^verbatim>\<open>[]any\<close> fails on it, and expand returns
  nil, a value with no fields to agree on.
\<close>

theorem ExtCertification_direct_round_trip_counterexample:
  "billingProjectExpandExtCertificationV1
     (AMapSlice (billingProjectFlattenExtCertificationV1
        (Some \<lparr>C5 = True, ISO = False, PCI = False, SOC1 = False, SOC2 = False, SOX = False\<rparr>))) = None"
  by simp

end
